theory Spec2Isabelle
  imports Complex_Main "HOL-Library.Sublist"
begin

section \<open>The two generic operations of \<^verbatim>\<open>data_processing_functions.py\<close>\<close>

text \<open>
  Python exceptions are values: a computation that may raise has the result type
  \<open>exn + 'a\<close>, with \<open>Inl\<close> for the raised exception. The constructors are the
  exceptions that the operations modelled below can raise; \<open>IOFailure\<close> stands for
  whatever \<^verbatim>\<open>open\<close> or \<^verbatim>\<open>csv.DictReader\<close> raise on a file that exists
  (\<^verbatim>\<open>OSError\<close>, \<^verbatim>\<open>UnicodeDecodeError\<close>, \<^verbatim>\<open>csv.Error\<close>). Every one of them
  is a subclass of \<^verbatim>\<open>Exception\<close>.
\<close>

datatype exn = ValueError | TypeError | OverflowError | ZeroDivisionError | IOFailure

text \<open>
  \<^verbatim>\<open>
  def filter(condition, dict_list):
      return [d for d in dict_list if condition(d)]
  \<close>
  The comprehension calls \<open>condition\<close> on the items in order and stops at the first
  call that raises, so the condition has the type \<open>'r \<Rightarrow> exn + bool\<close> and the result
  is the list built so far or the exception. A condition that never raises is
  \<open>\<lambda>d. Inr (p d)\<close>.
\<close>

fun filter_py :: "('r \<Rightarrow> exn + bool) \<Rightarrow> 'r list \<Rightarrow> exn + 'r list" where
  "filter_py condition [] = Inr []"
| "filter_py condition (d # dict_list) =
     (case condition d of
        Inl e \<Rightarrow> Inl e
      | Inr b \<Rightarrow>
          (case filter_py condition dict_list of
             Inl e \<Rightarrow> Inl e
           | Inr ds \<Rightarrow> Inr (if b then d # ds else ds)))"

text \<open>
  \<^verbatim>\<open>
  def aggregate(aggregation_key, aggregation_function, dict_list):
      vals = []
      for d in dict_list:
          if aggregation_key in d:
              vals.append(d[aggregation_key])
      return aggregation_function(vals)
  \<close>
  A dict is a map \<open>'k \<rightharpoonup> 'v\<close>. The loop is \<open>aggregate_loop\<close>, with the list
  \<open>vals\<close> as its accumulator; \<open>vals.append\<close> adds at the end.
\<close>

fun aggregate_loop :: "'k \<Rightarrow> ('k \<rightharpoonup> 'v) list \<Rightarrow> 'v list \<Rightarrow> 'v list" where
  "aggregate_loop aggregation_key [] vals = vals"
| "aggregate_loop aggregation_key (d # dict_list) vals =
     (case d aggregation_key of
        None \<Rightarrow> aggregate_loop aggregation_key dict_list vals
      | Some v \<Rightarrow> aggregate_loop aggregation_key dict_list (vals @ [v]))"

definition aggregate :: "'k \<Rightarrow> ('v list \<Rightarrow> 'a) \<Rightarrow> ('k \<rightharpoonup> 'v) list \<Rightarrow> 'a" where
  "aggregate aggregation_key aggregation_function dict_list =
     aggregation_function (aggregate_loop aggregation_key dict_list [])"

section \<open>Python values, strings and floats\<close>

text \<open>
  A Python \<^verbatim>\<open>str\<close> is a \<open>string\<close>: the list of its code points, each below 256
  (the characters of Latin-1); text with other code points is outside the model.
  \<open>is_space\<close> is \<^verbatim>\<open>str.isspace\<close> on one such character, \<open>py_strip\<close> is
  \<^verbatim>\<open>str.strip()\<close> and \<open>py_lower\<close> is \<^verbatim>\<open>str.lower()\<close>.
\<close>

definition is_space :: "char \<Rightarrow> bool" where
  "is_space c = (of_char c \<in> {9, 10, 11, 12, 13, 28, 29, 30, 31, 32, 133, 160 :: nat})"

definition py_strip :: "string \<Rightarrow> string" where
  "py_strip s = rev (dropWhile is_space (rev (dropWhile is_space s)))"

definition lower_char :: "char \<Rightarrow> char" where
  "lower_char c =
     (let n = (of_char c :: nat)
      in if (65 \<le> n \<and> n \<le> 90) \<or> (192 \<le> n \<and> n \<le> 222 \<and> n \<noteq> 215)
         then char_of (n + 32) else c)"

definition py_lower :: "string \<Rightarrow> string" where
  "py_lower s = map lower_char s"

text \<open>
  The values a record can hold are those \<^verbatim>\<open>csv.DictReader\<close> produces: a string,
  \<^verbatim>\<open>None\<close> (a row shorter than the header) and a list of strings (the fields beyond
  the header, stored under the key \<^verbatim>\<open>None\<close>). A key is a string or \<^verbatim>\<open>None\<close>.
\<close>

datatype pyval = VNone | VStr string | VList "string list"

datatype key = KNone | KStr string

type_synonym row = "key \<rightharpoonup> pyval"

text \<open>
  \<^verbatim>\<open>str(x)\<close>: a string is itself, \<^verbatim>\<open>None\<close> is \<^verbatim>\<open>'None'\<close>, and a list is the
  \<^verbatim>\<open>repr\<close> of its items between brackets. \<open>repr_str\<close> is \<^verbatim>\<open>repr\<close> of a string:
  double quotes when the string has a single quote and no double quote, the quote and
  the backslash escaped, tab, newline and return by letter, and every other
  non-printable character as \<^verbatim>\<open>\xNN\<close>.
\<close>

definition hex_digit :: "nat \<Rightarrow> char" where
  "hex_digit n = (if n < 10 then char_of (48 + n) else char_of (87 + n))"

definition printable :: "char \<Rightarrow> bool" where
  "printable c =
     (let n = (of_char c :: nat) in 32 \<le> n \<and> n \<noteq> 173 \<and> \<not> (127 \<le> n \<and> n \<le> 160))"

definition repr_char :: "char \<Rightarrow> char \<Rightarrow> string" where
  "repr_char quote c =
     (if c = quote \<or> c = CHR 0x5C then [CHR 0x5C, c]
      else if c = CHR 0x09 then [CHR 0x5C, CHR ''t'']
      else if c = CHR 0x0A then [CHR 0x5C, CHR ''n'']
      else if c = CHR 0x0D then [CHR 0x5C, CHR ''r'']
      else if printable c then [c]
      else [CHR 0x5C, CHR ''x'', hex_digit (of_char c div 16), hex_digit (of_char c mod 16)])"

definition repr_str :: "string \<Rightarrow> string" where
  "repr_str s =
     (let quote = (if CHR 0x27 \<in> set s \<and> CHR 0x22 \<notin> set s then CHR 0x22 else CHR 0x27)
      in [quote] @ concat (map (repr_char quote) s) @ [quote])"

fun join :: "string \<Rightarrow> string list \<Rightarrow> string" where
  "join sep [] = []"
| "join sep [x] = x"
| "join sep (x # y # ys) = x @ sep @ join sep (y # ys)"

fun py_str :: "pyval \<Rightarrow> string" where
  "py_str VNone = ''None''"
| "py_str (VStr s) = s"
| "py_str (VList xs) = ''['' @ join '', '' (map repr_str xs) @ '']''"

text \<open>
  A Python \<^verbatim>\<open>float\<close> is a finite double, an infinity or NaN. \<open>Fin q\<close> is the
  finite double whose exact value is the rational \<open>q\<close> (the two zeros are one value).
  Which rationals are doubles, and which double an exact result is rounded to, is the
  parameter \<open>rnd\<close> of the operations below: \<open>rnd q = Some r\<close> when \<open>q\<close> rounds to
  the finite double \<open>r\<close>, and \<open>rnd q = None\<close> when \<open>q\<close> is beyond the range of the
  doubles and rounds to an infinity. Every theorem below holds for every \<open>rnd\<close>.
\<close>

datatype pyfloat = Fin rat | PInf | NInf | NaN

type_synonym rounding = "rat \<Rightarrow> rat option"

definition round_to :: "rounding \<Rightarrow> rat \<Rightarrow> pyfloat" where
  "round_to rnd q = (case rnd q of Some r \<Rightarrow> Fin r | None \<Rightarrow> if 0 < q then PInf else NInf)"

text \<open>The rounding that leaves every value as it is, for examples whose values are doubles.\<close>

definition exact :: rounding where
  "exact q = Some q"

text \<open>
  \<^verbatim>\<open>float(s)\<close> for a string \<open>s\<close>, as CPython reads it. An underscore must stand
  between two digits and is dropped; white space around the text is dropped (white
  space for \<^verbatim>\<open>float\<close> is tab to carriage return, the space, and the two spaces
  beyond ASCII); what is left must be, as a whole, a decimal literal, or a sign and
  \<^verbatim>\<open>inf\<close>, \<^verbatim>\<open>infinity\<close> or \<^verbatim>\<open>nan\<close> in any case. Everything else raises
  \<^verbatim>\<open>ValueError\<close>. A decimal literal is
  \<^verbatim>\<open>[sign] (digits [. [digits]] | . digits) [(e|E) [sign] digits]\<close>;
  its exact value is rounded by \<open>rnd\<close>.
\<close>

definition is_digit :: "char \<Rightarrow> bool" where
  "is_digit c = (let n = (of_char c :: nat) in 48 \<le> n \<and> n \<le> 57)"

definition digits_val :: "string \<Rightarrow> int" where
  "digits_val ds = foldl (\<lambda>a c. 10 * a + (of_char c - 48)) 0 ds"

fun underscores_ok :: "char \<Rightarrow> string \<Rightarrow> bool" where
  "underscores_ok prev [] = (prev \<noteq> CHR ''_'')"
| "underscores_ok prev (c # cs) =
     ((if c = CHR ''_'' then is_digit prev
       else if prev = CHR ''_'' then is_digit c else True)
      \<and> underscores_ok c cs)"

definition is_float_space :: "char \<Rightarrow> bool" where
  "is_float_space c = (of_char c \<in> {9, 10, 11, 12, 13, 32, 133, 160 :: nat})"

definition strip_float :: "string \<Rightarrow> string" where
  "strip_float s = rev (dropWhile is_float_space (rev (dropWhile is_float_space s)))"

definition split_sign :: "string \<Rightarrow> bool \<times> string" where
  "split_sign s =
     (case s of
        [] \<Rightarrow> (False, s)
      | c # cs \<Rightarrow>
          if c = CHR ''-'' then (True, cs) else if c = CHR ''+'' then (False, cs) else (False, s))"

definition ascii_lower :: "char \<Rightarrow> char" where
  "ascii_lower c =
     (let n = (of_char c :: nat) in if 65 \<le> n \<and> n \<le> 90 then char_of (n + 32) else c)"

datatype literal = LNum rat | LInf bool | LNan

definition parse_inf_or_nan :: "string \<Rightarrow> literal option" where
  "parse_inf_or_nan s =
     (case split_sign s of
        (neg, t) \<Rightarrow>
          (let u = map ascii_lower t
           in if u = ''inf'' \<or> u = ''infinity'' then Some (LInf neg)
              else if u = ''nan'' then Some LNan
              else None))"

definition parse_exponent :: "string \<Rightarrow> int option" where
  "parse_exponent s =
     (case s of
        [] \<Rightarrow> Some 0
      | c # cs \<Rightarrow>
          if c = CHR ''e'' \<or> c = CHR ''E'' then
            (case split_sign cs of
               (neg, ds) \<Rightarrow>
                 if ds \<noteq> [] \<and> list_all is_digit ds
                 then Some (if neg then - digits_val ds else digits_val ds)
                 else None)
          else None)"

definition scale10 :: "rat \<Rightarrow> int \<Rightarrow> rat" where
  "scale10 m e = (if 0 \<le> e then m * 10 ^ nat e else m / 10 ^ nat (- e))"

definition parse_decimal :: "string \<Rightarrow> literal option" where
  "parse_decimal s =
     (case split_sign s of
        (neg, s1) \<Rightarrow>
          (let ip = takeWhile is_digit s1;
               s2 = dropWhile is_digit s1;
               dot = (s2 \<noteq> [] \<and> hd s2 = CHR ''.'');
               fp = (if dot then takeWhile is_digit (tl s2) else []);
               s3 = (if dot then dropWhile is_digit (tl s2) else s2)
           in if ip = [] \<and> fp = [] then None
              else
                (case parse_exponent s3 of
                   None \<Rightarrow> None
                 | Some e \<Rightarrow>
                     Some (LNum (scale10
                       (if neg then - of_int (digits_val (ip @ fp)) else of_int (digits_val (ip @ fp)))
                       (e - int (length fp)))))))"

definition parse_float :: "string \<Rightarrow> literal option" where
  "parse_float s =
     (if underscores_ok (CHR 0x00) s then
        (let t = strip_float (filter (\<lambda>c. c \<noteq> CHR ''_'') s)
         in case parse_decimal t of Some l \<Rightarrow> Some l | None \<Rightarrow> parse_inf_or_nan t)
      else None)"

text \<open>
  \<^verbatim>\<open>float(x)\<close>: \<^verbatim>\<open>None\<close> and a list raise \<^verbatim>\<open>TypeError\<close>, a string that is no
  float literal raises \<^verbatim>\<open>ValueError\<close>.
\<close>

fun py_float :: "rounding \<Rightarrow> pyval \<Rightarrow> exn + pyfloat" where
  "py_float rnd VNone = Inl TypeError"
| "py_float rnd (VList xs) = Inl TypeError"
| "py_float rnd (VStr s) =
     (case parse_float s of
        None \<Rightarrow> Inl ValueError
      | Some LNan \<Rightarrow> Inr NaN
      | Some (LInf neg) \<Rightarrow> Inr (if neg then NInf else PInf)
      | Some (LNum q) \<Rightarrow> Inr (round_to rnd q))"

text \<open>
  Float arithmetic. A NaN operand gives NaN, and so does the sum of the two
  infinities; a finite result is the exact one, rounded.
\<close>

fun fadd :: "rounding \<Rightarrow> pyfloat \<Rightarrow> pyfloat \<Rightarrow> pyfloat" where
  "fadd rnd NaN b = NaN"
| "fadd rnd a NaN = NaN"
| "fadd rnd PInf NInf = NaN"
| "fadd rnd NInf PInf = NaN"
| "fadd rnd PInf b = PInf"
| "fadd rnd NInf b = NInf"
| "fadd rnd a PInf = PInf"
| "fadd rnd a NInf = NInf"
| "fadd rnd (Fin a) (Fin b) = round_to rnd (a + b)"

text \<open>
  An \<^verbatim>\<open>int\<close> operand of a float operation is converted to a double first: exactly up
  to \<open>2 ^ 53\<close>, rounded beyond, and with \<^verbatim>\<open>OverflowError\<close> beyond the doubles' range.
\<close>

definition float_of_int :: "rounding \<Rightarrow> int \<Rightarrow> exn + pyfloat" where
  "float_of_int rnd n =
     (if \<bar>n\<bar> \<le> 2 ^ 53 then Inr (Fin (of_int n))
      else (case rnd (of_int n) of Some r \<Rightarrow> Inr (Fin r) | None \<Rightarrow> Inl OverflowError))"

text \<open>\<^verbatim>\<open>a / b\<close> on floats raises \<^verbatim>\<open>ZeroDivisionError\<close> when \<open>b\<close> is zero.\<close>

fun fdiv :: "rounding \<Rightarrow> pyfloat \<Rightarrow> pyfloat \<Rightarrow> exn + pyfloat" where
  "fdiv rnd a (Fin b) =
     (if b = 0 then Inl ZeroDivisionError
      else Inr (case a of
                  NaN \<Rightarrow> NaN
                | PInf \<Rightarrow> if 0 < b then PInf else NInf
                | NInf \<Rightarrow> if 0 < b then NInf else PInf
                | Fin q \<Rightarrow> round_to rnd (q / b)))"
| "fdiv rnd a NaN = Inr NaN"
| "fdiv rnd (Fin q) b = Inr (Fin 0)"
| "fdiv rnd a b = Inr NaN"

definition fdiv_int :: "rounding \<Rightarrow> pyfloat \<Rightarrow> int \<Rightarrow> exn + pyfloat" where
  "fdiv_int rnd a n = (case float_of_int rnd n of Inl e \<Rightarrow> Inl e | Inr b \<Rightarrow> fdiv rnd a b)"

text \<open>\<^verbatim>\<open>f > n\<close> for a float and an \<^verbatim>\<open>int\<close> compares the exact values; NaN is not greater.\<close>

fun fgt_int :: "pyfloat \<Rightarrow> int \<Rightarrow> bool" where
  "fgt_int (Fin q) n = (of_int n < q)"
| "fgt_int PInf n = True"
| "fgt_int NInf n = False"
| "fgt_int NaN n = False"

text \<open>
  \<^verbatim>\<open>str(f) == 'nan'\<close>: the text of a float is \<^verbatim>\<open>nan\<close> for NaN, \<^verbatim>\<open>inf\<close> or
  \<^verbatim>\<open>-inf\<close> for an infinity, and begins with a digit or a minus sign otherwise.
\<close>

fun str_is_nan :: "pyfloat \<Rightarrow> bool" where
  "str_is_nan NaN = True"
| "str_is_nan f = False"

section \<open>The demo driver\<close>

text \<open>
  \<^verbatim>\<open>
  def _to_float(x):
      try:
          return float(x)
      except Exception:
          return float("nan")
  \<close>
  Every exception of \<open>exn\<close> is an \<^verbatim>\<open>Exception\<close>, so the handler takes each of
  them; the handler's own \<^verbatim>\<open>float("nan")\<close> is evaluated like any other call.
\<close>

definition to_float :: "rounding \<Rightarrow> pyval \<Rightarrow> exn + pyfloat" where
  "to_float rnd x =
     (case py_float rnd x of
        Inr f \<Rightarrow> Inr f
      | Inl e \<Rightarrow> py_float rnd (VStr ''nan''))"

text \<open>
  The fold of the first query,
  \<^verbatim>\<open>
  lambda xs: (sum(_to_float(x) for x in xs)
              / max(1, sum(0 if (isinstance(_to_float(x), float)
                                 and str(_to_float(x)) == 'nan') else 1 for x in xs)))
             if xs else float("nan")
  \<close>
  \<open>sum_floats\<close> is the first \<^verbatim>\<open>sum\<close>, which starts from 0 and adds the floats in
  order; \<open>count_numeric\<close> is the second, a sum of the \<^verbatim>\<open>int\<close>s 0 and 1, with
  both of its calls of \<^verbatim>\<open>_to_float\<close>. The numerator is evaluated before the
  denominator.
\<close>

fun sum_floats :: "rounding \<Rightarrow> pyval list \<Rightarrow> pyfloat \<Rightarrow> exn + pyfloat" where
  "sum_floats rnd [] acc = Inr acc"
| "sum_floats rnd (x # xs) acc =
     (case to_float rnd x of
        Inl e \<Rightarrow> Inl e
      | Inr f \<Rightarrow> sum_floats rnd xs (fadd rnd acc f))"

fun count_numeric :: "rounding \<Rightarrow> pyval list \<Rightarrow> int \<Rightarrow> exn + int" where
  "count_numeric rnd [] acc = Inr acc"
| "count_numeric rnd (x # xs) acc =
     (case to_float rnd x of
        Inl e \<Rightarrow> Inl e
      | Inr f1 \<Rightarrow>
          (case to_float rnd x of
             Inl e \<Rightarrow> Inl e
           | Inr f2 \<Rightarrow> count_numeric rnd xs (acc + (if str_is_nan f2 then 0 else 1))))"

definition avg_fold :: "rounding \<Rightarrow> pyval list \<Rightarrow> exn + pyfloat" where
  "avg_fold rnd xs =
     (if xs \<noteq> [] then
        (case sum_floats rnd xs (Fin 0) of
           Inl e \<Rightarrow> Inl e
         | Inr s \<Rightarrow>
             (case count_numeric rnd xs 0 of
                Inl e \<Rightarrow> Inl e
              | Inr n \<Rightarrow> fdiv_int rnd s (max 1 n)))
      else py_float rnd (VStr ''nan''))"

definition avg_temp :: "rounding \<Rightarrow> row list \<Rightarrow> exn + pyfloat" where
  "avg_temp rnd cities = aggregate (KStr ''temperature'') (avg_fold rnd) cities"

text \<open>
  \<^verbatim>\<open>d.get(k, default)\<close>, and the conditions of the second and third query:
  \<^verbatim>\<open>
  lambda d: str(d.get("country","")).strip().lower() == "germany"
  lambda d: str(d.get("country","")).strip().lower() == "spain"
            and (_to_float(d.get("temperature")) > 12)
  \<close>
  \<^verbatim>\<open>and\<close> evaluates its right operand only when the left one is true.
\<close>

definition dict_get :: "row \<Rightarrow> key \<Rightarrow> pyval \<Rightarrow> pyval" where
  "dict_get d k dflt = (case d k of None \<Rightarrow> dflt | Some v \<Rightarrow> v)"

definition germany_cond :: "row \<Rightarrow> exn + bool" where
  "germany_cond d =
     Inr (py_lower (py_strip (py_str (dict_get d (KStr ''country'') (VStr [])))) = ''germany'')"

definition spain_cond :: "rounding \<Rightarrow> row \<Rightarrow> exn + bool" where
  "spain_cond rnd d =
     (if py_lower (py_strip (py_str (dict_get d (KStr ''country'') (VStr [])))) = ''spain''
      then (case to_float rnd (dict_get d (KStr ''temperature'') VNone) of
              Inl e \<Rightarrow> Inl e
            | Inr f \<Rightarrow> Inr (fgt_int f 12))
      else Inr False)"

definition cities_in_germany :: "row list \<Rightarrow> exn + row list" where
  "cities_in_germany cities = filter_py germany_cond cities"

definition spain_above_12 :: "rounding \<Rightarrow> row list \<Rightarrow> exn + row list" where
  "spain_above_12 rnd cities = filter_py (spain_cond rnd) cities"

text \<open>
  The fold of the fourth query,
  \<^verbatim>\<open>lambda xs: len({str(x).strip().lower() for x in xs if str(x).strip()})\<close>:
  the number of elements of the set of the normalised values; a string is true when
  it is not empty.
\<close>

definition unique_fold :: "pyval list \<Rightarrow> int" where
  "unique_fold xs =
     int (card (set (map (\<lambda>x. py_lower (py_strip (py_str x)))
                         (filter (\<lambda>x. py_strip (py_str x) \<noteq> []) xs))))"

definition unique_country_count :: "row list \<Rightarrow> int" where
  "unique_country_count cities = aggregate (KStr ''country'') unique_fold cities"

text \<open>
  The file system is a parameter: \<open>path_exists\<close> is \<^verbatim>\<open>os.path.exists\<close>, and
  \<open>read_rows p\<close> is what \<^verbatim>\<open>csv.DictReader\<close> yields for the file at \<open>p\<close>, each
  row as the list of its items in order, or the exception that opening or reading the
  file raises. What the program prints is a list of lines.
\<close>

record world =
  path_exists :: "string \<Rightarrow> bool"
  read_rows :: "string \<Rightarrow> exn + (key \<times> pyval) list list"

datatype out =
    Unavailable
  | AvgLine pyfloat
  | GermanyHeader
  | SpainHeader
  | CityLine row
  | CountLine int

text \<open>
  The dict comprehension of \<^verbatim>\<open>_load_cities\<close>,
  \<^verbatim>\<open>{(k.strip().lower() if isinstance(k,str) else k):
      (v.strip() if isinstance(v,str) else v) for k, v in r.items()}\<close>,
  stores the items in order, a later one replacing an earlier one with the same key.
\<close>

fun norm_key :: "key \<Rightarrow> key" where
  "norm_key (KStr k) = KStr (py_lower (py_strip k))"
| "norm_key KNone = KNone"

fun norm_val :: "pyval \<Rightarrow> pyval" where
  "norm_val (VStr v) = VStr (py_strip v)"
| "norm_val v = v"

definition norm_row :: "(key \<times> pyval) list \<Rightarrow> row" where
  "norm_row r = foldl (\<lambda>m (k, v). m(norm_key k \<mapsto> norm_val v)) Map.empty r"

definition default_candidates :: "string list" where
  "default_candidates =
     [''./Cities.csv'', ''Cities.csv'', ''/content/Cities.csv'', ''/mnt/data/Cities.csv'']"

text \<open>
  The probing loop of \<^verbatim>\<open>_load_cities\<close> leaves \<open>file_path\<close> at the first candidate
  that exists, or at \<^verbatim>\<open>None\<close>. \<^verbatim>\<open>not file_path\<close> holds for \<^verbatim>\<open>None\<close> and for
  the empty string. The function returns what it printed and its result.
\<close>

fun first_existing :: "world \<Rightarrow> string list \<Rightarrow> string option" where
  "first_existing w [] = None"
| "first_existing w (p # ps) = (if path_exists w p then Some p else first_existing w ps)"

definition load_cities :: "world \<Rightarrow> string list option \<Rightarrow> out list \<times> (exn + row list)" where
  "load_cities w csv_path_candidates =
     (let candidates =
            (case csv_path_candidates of None \<Rightarrow> default_candidates | Some c \<Rightarrow> c)
      in case first_existing w candidates of
           None \<Rightarrow> ([Unavailable], Inr [])
         | Some file_path \<Rightarrow>
             if file_path = [] then ([Unavailable], Inr [])
             else (case read_rows w file_path of
                     Inl e \<Rightarrow> ([], Inl e)
                   | Inr rows \<Rightarrow> ([], Inr (map norm_row rows))))"

text \<open>
  \<open>main_body\<close> is \<^verbatim>\<open>main\<close> from its second statement on, as a function of the
  loaded \<open>cities\<close>: the guard \<^verbatim>\<open>if not cities: return\<close>, then the four queries,
  each printed before the next is computed. \<open>main\<close> loads and runs it.
\<close>

definition main_body :: "rounding \<Rightarrow> row list \<Rightarrow> out list \<times> (exn + unit)" where
  "main_body rnd cities =
     (if cities = [] then ([], Inr ())
      else
        (case avg_temp rnd cities of
           Inl e \<Rightarrow> ([], Inl e)
         | Inr avg \<Rightarrow>
             (case cities_in_germany cities of
                Inl e \<Rightarrow> ([AvgLine avg], Inl e)
              | Inr g \<Rightarrow>
                  (case spain_above_12 rnd cities of
                     Inl e \<Rightarrow> ([AvgLine avg, GermanyHeader] @ map CityLine g, Inl e)
                   | Inr s \<Rightarrow>
                       ([AvgLine avg, GermanyHeader] @ map CityLine g
                          @ [SpainHeader] @ map CityLine s
                          @ [CountLine (unique_country_count cities)],
                        Inr ())))))"

definition main :: "rounding \<Rightarrow> world \<Rightarrow> out list \<times> (exn + unit)" where
  "main rnd w =
     (case load_cities w None of
        (printed, Inl e) \<Rightarrow> (printed, Inl e)
      | (printed, Inr cities) \<Rightarrow>
          (case main_body rnd cities of (lines, r) \<Rightarrow> (printed @ lines, r)))"

text \<open>
  Two file systems for the examples: one where no candidate path exists, and one where
  \<^verbatim>\<open>Cities.csv\<close> exists in the working directory and holds a header and no rows.
\<close>

definition no_file :: world where
  "no_file = \<lparr>path_exists = (\<lambda>p. False), read_rows = (\<lambda>p. Inl IOFailure)\<rparr>"

definition header_only :: world where
  "header_only = \<lparr>path_exists = (\<lambda>p. p = ''Cities.csv''), read_rows = (\<lambda>p. Inr [])\<rparr>"

section \<open>Properties of filter and aggregate\<close>

lemma filter_py_total: "filter_py (\<lambda>d. Inr (P d)) D = Inr (filter P D)"
  by (induction D) simp_all

lemma aggregate_loop_acc:
  "aggregate_loop K D vals = vals @ List.map_filter (\<lambda>d. d K) D"
  by (induction D arbitrary: vals) (simp_all add: List.map_filter_simps split: option.split)

lemma aggregate_loop_values:
  "aggregate_loop K D [] = map (\<lambda>d. the (d K)) (filter (\<lambda>d. K \<in> dom d) D)"
proof -
  have "List.map_filter (\<lambda>d. d K) D = map (\<lambda>d. the (d K)) (filter (\<lambda>d. K \<in> dom d) D)"
    by (induction D) (auto simp: List.map_filter_simps split: option.split)
  then show ?thesis
    by (simp add: aggregate_loop_acc)
qed

lemma count_list_filter:
  "count_list (filter P D) d = (if P d then count_list D d else 0)"
  by (induction D) auto

text \<open>
  C1. For a condition that returns a truth value on every record, \<open>filter\<close> returns
  the records of the dataset on which the condition is true and no others: the result
  is a subsequence of the dataset (so the order is kept), each record occurs in it as
  often as in the dataset when the condition holds of it and not at all otherwise, and
  the result is no longer than the dataset.
\<close>

theorem filter_py_exactly_matching:
  "\<exists>ys. filter_py (\<lambda>d. Inr (P d)) D = Inr ys
        \<and> ys = filter P D
        \<and> subseq ys D
        \<and> set ys = {d \<in> set D. P d}
        \<and> (\<forall>d. count_list ys d = (if P d then count_list D d else 0))
        \<and> length ys \<le> length D"
  by (simp add: filter_py_total count_list_filter)

text \<open>
  C8. With the condition that is always true \<open>filter\<close> returns the dataset itself,
  and with the condition that is always false it returns the empty list.
\<close>

theorem filter_py_constant_conditions:
  "filter_py (\<lambda>d. Inr True) D = Inr D \<and> filter_py (\<lambda>d. Inr False) D = Inr []"
  by (simp add: filter_py_total)

text \<open>
  C2. \<open>aggregate\<close> applies the aggregation function to the list of the values stored
  under the key, taken in dataset order from exactly the records that have the key,
  whatever the value is; a record without the key contributes nothing.
\<close>

theorem aggregate_present_values:
  "aggregate K F D = F (map (\<lambda>d. the (d K)) (filter (\<lambda>d. K \<in> dom d) D))"
  by (simp add: aggregate_def aggregate_loop_values)

section \<open>Properties of the float conversion and of the average fold\<close>

lemma parse_float_nan: "parse_float ''nan'' = Some LNan"
  by code_simp

lemma to_float_cases:
  "to_float rnd x = Inr (case py_float rnd x of Inl e \<Rightarrow> NaN | Inr f \<Rightarrow> f)"
  by (simp add: to_float_def parse_float_nan split: sum.split)

text \<open>
  C9. \<open>_to_float\<close> returns a float on every value and never raises; a value on which
  \<^verbatim>\<open>float\<close> raises is mapped to NaN, and every other value to its float.
\<close>

theorem to_float_total:
  "(\<exists>f. to_float rnd x = Inr f)
   \<and> to_float rnd x = Inr (case py_float rnd x of Inl e \<Rightarrow> NaN | Inr f \<Rightarrow> f)"
  by (simp add: to_float_cases)

lemma fadd_NaN_right: "fadd rnd a NaN = NaN"
  by (cases a) simp_all

lemma sum_floats_total: "\<exists>s. sum_floats rnd xs acc = Inr s"
  by (induction xs arbitrary: acc) (simp_all add: to_float_cases)

lemma sum_floats_NaN: "sum_floats rnd xs NaN = Inr NaN"
  by (induction xs) (simp_all add: to_float_cases)

text \<open>One NaN among the converted values makes the whole sum NaN.\<close>

lemma sum_floats_with_NaN:
  "x \<in> set xs \<Longrightarrow> to_float rnd x = Inr NaN \<Longrightarrow> sum_floats rnd xs acc = Inr NaN"
proof (induction xs arbitrary: acc)
  case Nil
  then show ?case by simp
next
  case (Cons y ys)
  show ?case
  proof (cases "x = y")
    case True
    with Cons.prems show ?thesis
      by (simp add: fadd_NaN_right sum_floats_NaN)
  next
    case False
    with Cons.prems have "x \<in> set ys" by simp
    from Cons.IH [OF this Cons.prems(2)] show ?thesis
      by (simp add: to_float_cases)
  qed
qed

text \<open>The count of the numeric values lies between 0 and the number of values.\<close>

lemma count_numeric_bounds:
  "\<exists>n. count_numeric rnd xs acc = Inr n \<and> acc \<le> n \<and> n \<le> acc + int (length xs)"
proof (induction xs arbitrary: acc)
  case Nil
  then show ?case by simp
next
  case (Cons x xs)
  let ?k = "if str_is_nan (case py_float rnd x of Inl e \<Rightarrow> NaN | Inr f \<Rightarrow> f) then 0 else (1::int)"
  from Cons.IH [of "acc + ?k"] obtain n where
    "count_numeric rnd xs (acc + ?k) = Inr n" "acc + ?k \<le> n" "n \<le> acc + ?k + int (length xs)"
    by blast
  then show ?case
    by (auto simp: to_float_cases split: if_splits)
qed

lemma fdiv_int_small:
  assumes "1 \<le> n" "n \<le> 2 ^ 53"
  shows "\<exists>f. fdiv_int rnd a n = Inr f"
  using assms by (simp add: fdiv_int_def float_of_int_def)

lemma fdiv_int_NaN:
  assumes "1 \<le> n" "n \<le> 2 ^ 53"
  shows "fdiv_int rnd NaN n = Inr NaN"
  using assms by (simp add: fdiv_int_def float_of_int_def)

lemma denominator_in_range:
  assumes "length xs \<le> 2 ^ 53"
  obtains n where "count_numeric rnd xs 0 = Inr n" "1 \<le> max 1 n" "max 1 n \<le> 2 ^ 53"
proof -
  obtain n where n: "count_numeric rnd xs 0 = Inr n" "0 \<le> n" "n \<le> int (length xs)"
    using count_numeric_bounds [of rnd xs 0] by auto
  from assms have "int (length xs) \<le> 2 ^ 53"
    by (metis of_nat_le_iff of_nat_numeral of_nat_power)
  with n have "1 \<le> max 1 n" "max 1 n \<le> 2 ^ 53" by simp_all
  with n(1) show ?thesis by (rule that)
qed

text \<open>
  C10. The average fold never divides by zero: on every value sequence (of at most
  \<open>2 ^ 53\<close> values, so that the count converts to a double exactly; no list in a
  computer's memory is longer) the denominator \<^verbatim>\<open>max(1, count)\<close> is at least 1 and
  the fold returns a float, also when no value is numeric.
\<close>

theorem avg_fold_returns_float:
  assumes "length xs \<le> 2 ^ 53"
  shows "\<exists>f. avg_fold rnd xs = Inr f"
proof (cases "xs = []")
  case True
  then show ?thesis by (simp add: avg_fold_def parse_float_nan)
next
  case False
  obtain s where s: "sum_floats rnd xs (Fin 0) = Inr s"
    using sum_floats_total by blast
  from assms obtain n where
    n: "count_numeric rnd xs 0 = Inr n" and range: "1 \<le> max 1 n" "max 1 n \<le> 2 ^ 53"
    by (rule denominator_in_range)
  from fdiv_int_small [OF range] obtain f where "fdiv_int rnd s (max 1 n) = Inr f" by blast
  with False s n show ?thesis by (simp add: avg_fold_def)
qed

theorem avg_fold_returns_float_witness:
  "length [VStr ''abc'', VNone] \<le> 2 ^ 53 \<and> (\<exists>f. avg_fold exact [VStr ''abc'', VNone] = Inr f)"
  using avg_fold_returns_float [of "[VStr ''abc'', VNone]" exact] by simp

text \<open>
  The fold adds the NaN of a value that is no number into the numerator, so one such
  value makes the average NaN.
\<close>

lemma avg_fold_with_NaN:
  assumes "x \<in> set xs" "to_float rnd x = Inr NaN" "length xs \<le> 2 ^ 53"
  shows "avg_fold rnd xs = Inr NaN"
proof -
  from assms(1) have ne: "xs \<noteq> []" by auto
  have s: "sum_floats rnd xs (Fin 0) = Inr NaN"
    using assms(1,2) by (rule sum_floats_with_NaN)
  from assms(3) obtain n where
    n: "count_numeric rnd xs 0 = Inr n" and range: "1 \<le> max 1 n" "max 1 n \<le> 2 ^ 53"
    by (rule denominator_in_range)
  from fdiv_int_NaN [OF range] ne s n show ?thesis by (simp add: avg_fold_def)
qed

text \<open>
  C3. The claim is that a temperature that is no number is left out of the sum and of
  the count, so that the records \<^verbatim>\<open>{"temperature": "10"}\<close> and
  \<^verbatim>\<open>{"temperature": "abc"}\<close> have the average 10. The code leaves it out of the
  count only: the average of these two records is NaN.
\<close>

theorem avg_temp_unparseable_is_nan:
  "avg_temp rnd
     [[KStr ''temperature'' \<mapsto> VStr ''10''], [KStr ''temperature'' \<mapsto> VStr ''abc'']]
   = Inr NaN"
proof -
  have abc: "to_float rnd (VStr ''abc'') = Inr NaN"
    by (simp add: to_float_cases) code_simp
  have "avg_fold rnd [VStr ''10'', VStr ''abc''] = Inr NaN"
    by (rule avg_fold_with_NaN [of "VStr ''abc''"]) (simp_all add: abc)
  then show ?thesis
    by (simp add: avg_temp_def aggregate_def)
qed

section \<open>Properties of the selections and of the country count\<close>

lemma fgt_int_iff: "fgt_int f n \<longleftrightarrow> f = PInf \<or> (\<exists>q. f = Fin q \<and> of_int n < q)"
  by (cases f) simp_all

lemma empty_not_spain: "py_lower (py_strip (py_str (VStr []))) \<noteq> ''spain''"
  by (simp add: py_lower_def py_strip_def)

text \<open>
  The condition of the Spain query never raises. It holds of a record exactly when
  the record has a country whose text, trimmed and lowercased, is \<^verbatim>\<open>spain\<close>, and a
  temperature that \<^verbatim>\<open>float\<close> converts to a float greater than 12.
\<close>

lemma spain_cond_total:
  "spain_cond rnd d =
     Inr ((\<exists>c. d (KStr ''country'') = Some c \<and> py_lower (py_strip (py_str c)) = ''spain'')
          \<and> (\<exists>t f. d (KStr ''temperature'') = Some t \<and> py_float rnd t = Inr f
                 \<and> (f = PInf \<or> (\<exists>q. f = Fin q \<and> 12 < q))))"
proof (cases "d (KStr ''country'')")
  case None
  then show ?thesis
    using empty_not_spain by (simp add: spain_cond_def dict_get_def)
next
  case (Some c)
  show ?thesis
  proof (cases "d (KStr ''temperature'')")
    case None
    with Some show ?thesis
      by (simp add: spain_cond_def dict_get_def to_float_cases)
  next
    case t: (Some t)
    show ?thesis
    proof (cases "py_float rnd t")
      case (Inl e)
      with Some t show ?thesis
        by (simp add: spain_cond_def dict_get_def to_float_cases)
    next
      case (Inr f)
      with Some t show ?thesis
        by (simp add: spain_cond_def dict_get_def to_float_cases fgt_int_iff)
    qed
  qed
qed

text \<open>
  C4. The Spain query returns, in dataset order, exactly the records whose country,
  trimmed and lowercased, is \<^verbatim>\<open>spain\<close> and whose temperature converts to a float
  that exceeds 12 (a finite value above 12, or infinity). A record without a
  temperature, or with one that \<^verbatim>\<open>float\<close> rejects, is not selected, and the query
  does not raise.
\<close>

theorem spain_above_12_selects:
  "spain_above_12 rnd cities =
     Inr (filter
       (\<lambda>d. (\<exists>c. d (KStr ''country'') = Some c \<and> py_lower (py_strip (py_str c)) = ''spain'')
            \<and> (\<exists>t f. d (KStr ''temperature'') = Some t \<and> py_float rnd t = Inr f
                   \<and> (f = PInf \<or> (\<exists>q. f = Fin q \<and> 12 < q))))
       cities)"
  unfolding spain_above_12_def
  by (subst spain_cond_total [abs_def]) (rule filter_py_total)




section \<open>Properties of the driver\<close>

lemma first_existing_None:
  "first_existing w ps = None \<longleftrightarrow> (\<forall>p \<in> set ps. \<not> path_exists w p)"
  by (induction ps) simp_all

lemma first_existing_Some:
  "(\<forall>q \<in> set ps. \<not> path_exists w q) \<Longrightarrow> path_exists w p \<Longrightarrow>
     first_existing w (ps @ p # qs) = Some p"
  by (induction ps) simp_all

lemma default_candidates_nonempty: "p \<in> set default_candidates \<Longrightarrow> p \<noteq> []"
  by (auto simp: default_candidates_def)

text \<open>
  C6. When none of the candidate paths exists, the program prints the warning and
  nothing else, runs no query and returns normally. When some candidate exists, the
  rows are read from the first one that does, and the program goes on with them (or
  with the exception that reading raises).
\<close>

theorem main_unavailable_or_first_existing:
  "((\<forall>p \<in> set default_candidates. \<not> path_exists w p) \<longrightarrow>
       main rnd w = ([Unavailable], Inr ()))
   \<and> (\<forall>ps p qs.
         default_candidates = ps @ p # qs
         \<and> (\<forall>q \<in> set ps. \<not> path_exists w q) \<and> path_exists w p \<longrightarrow>
         main rnd w =
           (case read_rows w p of
              Inl e \<Rightarrow> ([], Inl e)
            | Inr rows \<Rightarrow> main_body rnd (map norm_row rows)))"
proof (intro conjI impI allI)
  assume "\<forall>p \<in> set default_candidates. \<not> path_exists w p"
  then have "first_existing w default_candidates = None"
    by (simp add: first_existing_None)
  then show "main rnd w = ([Unavailable], Inr ())"
    by (simp add: main_def load_cities_def main_body_def)
next
  fix ps p qs
  assume h: "default_candidates = ps @ p # qs
    \<and> (\<forall>q \<in> set ps. \<not> path_exists w q) \<and> path_exists w p"
  then have "first_existing w (ps @ p # qs) = Some p"
    by (intro first_existing_Some) simp_all
  with h have "first_existing w default_candidates = Some p"
    by simp
  moreover from h have "p \<in> set default_candidates"
    by (metis in_set_conv_decomp)
  then have "p \<noteq> []"
    by (rule default_candidates_nonempty)
  ultimately show "main rnd w =
      (case read_rows w p of Inl e \<Rightarrow> ([], Inl e) | Inr rows \<Rightarrow> main_body rnd (map norm_row rows))"
    by (simp add: main_def load_cities_def split: sum.split prod.split)
qed

theorem main_unavailable_or_first_existing_witness:
  "list_all (\<lambda>p. \<not> path_exists no_file p) default_candidates
   \<and> main exact no_file = ([Unavailable], Inr ())
   \<and> default_candidates =
       [''./Cities.csv''] @ ''Cities.csv'' # [''/content/Cities.csv'', ''/mnt/data/Cities.csv'']
   \<and> \<not> path_exists header_only ''./Cities.csv''
   \<and> path_exists header_only ''Cities.csv''
   \<and> main exact header_only = main_body exact (map norm_row [])"
proof -
  have a: "\<forall>p \<in> set default_candidates. \<not> path_exists no_file p"
    by (simp add: no_file_def)
  have b: "default_candidates =
        [''./Cities.csv''] @ ''Cities.csv'' # [''/content/Cities.csv'', ''/mnt/data/Cities.csv'']
      \<and> (\<forall>q \<in> set [''./Cities.csv'']. \<not> path_exists header_only q)
      \<and> path_exists header_only ''Cities.csv''"
    by (simp add: default_candidates_def header_only_def)
  from main_unavailable_or_first_existing [of no_file exact] a
  have 1: "main exact no_file = ([Unavailable], Inr ())" by blast
  from main_unavailable_or_first_existing [of header_only exact] b
  have 2: "main exact header_only =
      (case read_rows header_only ''Cities.csv'' of
         Inl e \<Rightarrow> ([], Inl e)
       | Inr rows \<Rightarrow> main_body exact (map norm_row rows))"
    by blast
  from a b 1 2 show ?thesis
    by (simp add: list_all_iff header_only_def)
qed

text \<open>
  C7. On the empty dataset every query of the demo yields a defined result and none
  raises: the average fold returns NaN on the empty value sequence, and so does the
  average-temperature query; the Germany and the Spain selection are empty; the
  unique-country count is 0. The driver ends without an exception there as well: it
  returns at its guard \<^verbatim>\<open>if not cities: return\<close>.
\<close>

theorem empty_dataset_queries:
  "main_body rnd [] = ([], Inr ())
   \<and> avg_fold rnd [] = Inr NaN
   \<and> avg_temp rnd [] = Inr NaN
   \<and> cities_in_germany [] = Inr []
   \<and> spain_above_12 rnd [] = Inr []
   \<and> unique_country_count [] = 0"
  by (simp add: main_body_def avg_temp_def aggregate_def avg_fold_def parse_float_nan
      cities_in_germany_def spain_above_12_def unique_country_count_def unique_fold_def)

end
